theory Spec2Isabelle
  imports Complex_Main
begin

unbundle bit_operations_syntax

section \<open>JavaScript values\<close>

text \<open>
  The builders of this repository (\<^verbatim>\<open>sqlForPartialUpdate\<close> in helpers/sql.js,
  \<^verbatim>\<open>Company.getByFilter\<close> and \<^verbatim>\<open>Job.getByFilter\<close> in the models) work on plain
  objects. The values of their own properties are scalars: strings, numbers, booleans,
  \<^verbatim>\<open>null\<close>, \<^verbatim>\<open>undefined\<close>. A read of a key the object does not own goes to
  \<^verbatim>\<open>Object.prototype\<close>, whose properties are built-in functions (\<open>JBuiltin\<close>, with the
  function's name) and, under \<^verbatim>\<open>__proto__\<close>, that prototype object itself.

  A number is NaN, an infinity or a finite value. A finite double is a rational, and the
  builders only compare numbers and print them, so a finite number is carried as the
  rational it denotes (both zeros are the rational 0).
\<close>

datatype jsnum = NaN | PosInf | NegInf | Finite rat

datatype jsval =
  JUndefined | JNull | JBool bool | JNum jsnum | JStr string
  | JBuiltin string | JObjectPrototype

text \<open>
  A plain object is the list of its own enumerable string-keyed properties in the order
  in which \<^verbatim>\<open>Object.keys\<close>, \<^verbatim>\<open>Object.values\<close> and \<^verbatim>\<open>for ... in\<close> enumerate them
  (for keys that are not array indices this is the order of insertion). A well-formed
  object has no key twice. Its prototype is \<^verbatim>\<open>Object.prototype\<close>, as for an object
  literal or a parsed JSON body; the properties of the prototype are not enumerable, so
  the three enumerations do not see them, and a property read does.
\<close>

type_synonym jsobj = "(string \<times> jsval) list"

definition wf_obj :: "jsobj \<Rightarrow> bool" where
  "wf_obj obj = distinct (map fst obj)"

definition Object_keys :: "jsobj \<Rightarrow> string list" where
  "Object_keys obj = map fst obj"

definition Object_values :: "jsobj \<Rightarrow> jsval list" where
  "Object_values obj = map snd obj"

definition Object_prototype :: "string \<Rightarrow> jsval option" where
  \<comment> \<open>the properties of \<^verbatim>\<open>Object.prototype\<close>\<close>
  "Object_prototype key =
     (if key = ''constructor'' then Some (JBuiltin ''Object'')
      else if key \<in> set [''hasOwnProperty'', ''isPrototypeOf'', ''propertyIsEnumerable'',
                          ''toLocaleString'', ''toString'', ''valueOf'',
                          ''__defineGetter__'', ''__defineSetter__'',
                          ''__lookupGetter__'', ''__lookupSetter__'']
      then Some (JBuiltin key)
      else if key = ''__proto__'' then Some JObjectPrototype
      else None)"

definition prop_get :: "jsobj \<Rightarrow> string \<Rightarrow> jsval" where
  \<comment> \<open>\<^verbatim>\<open>obj[key]\<close> and \<^verbatim>\<open>obj.key\<close>: the own property, else the inherited one, else
      \<^verbatim>\<open>undefined\<close>\<close>
  "prop_get obj key =
     (case map_of obj key of
        Some v \<Rightarrow> v
      | None \<Rightarrow> (case Object_prototype key of Some v \<Rightarrow> v | None \<Rightarrow> JUndefined))"

subsection \<open>Conversions\<close>

text \<open>
  Two conversions of the language are not written out and are taken as parameters:
  the digits the engine prints for a finite number that is not an integer of magnitude
  at most \<open>2\<^sup>5\<^sup>3\<close> (the shortest digits that read back as the same double; for the
  integers up to \<open>2\<^sup>5\<^sup>3\<close> these are the decimal digits of the integer), and the
  reading of a string as a number (\<^verbatim>\<open>StringToNumber\<close>: white space, signs, exponents,
  hexadecimal literals, rounding). Every theorem below holds for every such pair of
  functions.
\<close>

record engine =
  number_digits :: "rat \<Rightarrow> string"
  string_number :: "string \<Rightarrow> jsnum"

fun ToBoolean :: "jsval \<Rightarrow> bool" where
  "ToBoolean JUndefined = False"
| "ToBoolean JNull = False"
| "ToBoolean (JBool b) = b"
| "ToBoolean (JNum n) = (n \<noteq> NaN \<and> n \<noteq> Finite 0)"
| "ToBoolean (JStr s) = (s \<noteq> [])"
| "ToBoolean (JBuiltin f) = True"
| "ToBoolean JObjectPrototype = True"

fun nat_str :: "nat \<Rightarrow> string" where
  \<comment> \<open>the decimal digits of an array length or index\<close>
  "nat_str n =
     (if n < 10 then [''0123456789'' ! n]
      else nat_str (n div 10) @ [''0123456789'' ! (n mod 10)])"

declare nat_str.simps [simp del]

definition int_str :: "int \<Rightarrow> string" where
  "int_str i = (if i < 0 then CHR ''-'' # nat_str (nat (- i)) else nat_str (nat i))"

definition NumberToString :: "engine \<Rightarrow> jsnum \<Rightarrow> string" where
  "NumberToString e n =
     (case n of
        NaN \<Rightarrow> ''NaN''
      | PosInf \<Rightarrow> ''Infinity''
      | NegInf \<Rightarrow> ''-Infinity''
      | Finite q \<Rightarrow>
          if of_int \<lfloor>q\<rfloor> = q \<and> \<bar>q\<bar> \<le> 2 ^ 53 then int_str \<lfloor>q\<rfloor>
          else number_digits e q)"

fun ToString :: "engine \<Rightarrow> jsval \<Rightarrow> string" where
  "ToString e JUndefined = ''undefined''"
| "ToString e JNull = ''null''"
| "ToString e (JBool b) = (if b then ''true'' else ''false'')"
| "ToString e (JNum n) = NumberToString e n"
| "ToString e (JStr s) = s"
| "ToString e (JBuiltin f) = ''function '' @ f @ ''() { [native code] }''"
| "ToString e JObjectPrototype = ''[object Object]''"

fun ToPrimitive :: "engine \<Rightarrow> jsval \<Rightarrow> jsval" where
  \<comment> \<open>a function or an object becomes its text, a scalar stays\<close>
  "ToPrimitive e (JBuiltin f) = JStr (ToString e (JBuiltin f))"
| "ToPrimitive e JObjectPrototype = JStr (ToString e JObjectPrototype)"
| "ToPrimitive e v = v"

fun ToNumber :: "engine \<Rightarrow> jsval \<Rightarrow> jsnum" where
  "ToNumber e JUndefined = NaN"
| "ToNumber e JNull = Finite 0"
| "ToNumber e (JBool b) = Finite (if b then 1 else 0)"
| "ToNumber e (JNum n) = n"
| "ToNumber e (JStr s) = string_number e s"
| "ToNumber e (JBuiltin f) = string_number e (ToString e (JBuiltin f))"
| "ToNumber e JObjectPrototype = string_number e (ToString e JObjectPrototype)"

subsection \<open>Operators\<close>

text \<open>
  The relational comparison of the language answers true, false or undefined
  (\<open>None\<close>). Both operands are made primitive first; then two strings are compared by
  their code units, anything else as numbers, and a comparison with NaN is undefined.
  \<^verbatim>\<open>a < b\<close> holds when the answer is true; \<^verbatim>\<open>a >= b\<close> holds when the answer to
  \<^verbatim>\<open>a < b\<close> is false.
\<close>

fun num_less :: "jsnum \<Rightarrow> jsnum \<Rightarrow> bool option" where
  "num_less NaN _ = None"
| "num_less _ NaN = None"
| "num_less (Finite a) (Finite b) = Some (a < b)"
| "num_less PosInf _ = Some False"
| "num_less NegInf NegInf = Some False"
| "num_less NegInf _ = Some True"
| "num_less (Finite a) PosInf = Some True"
| "num_less (Finite a) NegInf = Some False"

fun str_less :: "string \<Rightarrow> string \<Rightarrow> bool" where
  "str_less [] [] = False"
| "str_less [] (y # ys) = True"
| "str_less (x # xs) [] = False"
| "str_less (x # xs) (y # ys) =
     (if (of_char x :: nat) < of_char y then True
      else if (of_char y :: nat) < of_char x then False
      else str_less xs ys)"

fun LessThanPrimitive :: "engine \<Rightarrow> jsval \<Rightarrow> jsval \<Rightarrow> bool option" where
  "LessThanPrimitive e (JStr s) (JStr t) = Some (str_less s t)"
| "LessThanPrimitive e x y = num_less (ToNumber e x) (ToNumber e y)"

definition IsLessThan :: "engine \<Rightarrow> jsval \<Rightarrow> jsval \<Rightarrow> bool option" where
  "IsLessThan e x y = LessThanPrimitive e (ToPrimitive e x) (ToPrimitive e y)"

definition js_lt :: "engine \<Rightarrow> jsval \<Rightarrow> jsval \<Rightarrow> bool" where
  \<comment> \<open>\<^verbatim>\<open>x < y\<close>\<close>
  "js_lt e x y = (IsLessThan e x y = Some True)"

definition js_ge :: "engine \<Rightarrow> jsval \<Rightarrow> jsval \<Rightarrow> bool" where
  \<comment> \<open>\<^verbatim>\<open>x >= y\<close>\<close>
  "js_ge e x y = (IsLessThan e x y = Some False)"

definition js_or :: "jsval \<Rightarrow> jsval \<Rightarrow> jsval" where
  \<comment> \<open>\<^verbatim>\<open>x || y\<close>\<close>
  "js_or x y = (if ToBoolean x then x else y)"

fun join :: "string \<Rightarrow> string list \<Rightarrow> string" where
  \<comment> \<open>\<^verbatim>\<open>Array.prototype.join\<close> on an array of strings\<close>
  "join sep [] = []"
| "join sep [x] = x"
| "join sep (x # y # ys) = x @ sep @ join sep (y # ys)"

section \<open>Errors\<close>

text \<open>
  \<^verbatim>\<open>BadRequestError\<close> and \<^verbatim>\<open>NotFoundError\<close> are the two error classes the models import
  from expressError; \<open>DatabaseError\<close> stands for whatever \<^verbatim>\<open>db.query\<close> rejects with.
  A \<^verbatim>\<open>throw\<close> (in an async function, a rejected promise) is the value \<open>Inl\<close> of the error.
\<close>

datatype error = BadRequestError string | NotFoundError string | DatabaseError string

section \<open>helpers/sql.js\<close>

text \<open>
  \<^verbatim>\<open>
  function sqlForPartialUpdate(dataToUpdate, jsToSql) {
    const keys = Object.keys(dataToUpdate);
    if (keys.length === 0) throw new BadRequestError("No data");
    const cols = keys.map((colName, idx) =>
        `"${jsToSql[colName] || colName}"=$${idx + 1}`,
    );
    return {
      setCols: cols.join(", "),
      values: Object.values(dataToUpdate),
    };
  }
  \<close>
\<close>

record partial_update =
  setCols :: string
  "values" :: "jsval list"

definition col_assignment :: "engine \<Rightarrow> jsobj \<Rightarrow> nat \<times> string \<Rightarrow> string" where
  \<comment> \<open>the arrow function given to \<^verbatim>\<open>keys.map\<close>, applied to (idx, colName)\<close>
  \<open>col_assignment e jsToSql = (\<lambda>(idx, colName).
     ''"'' @ ToString e (js_or (prop_get jsToSql colName) (JStr colName)) @ ''"=$''
       @ nat_str (idx + 1))\<close>

definition sqlForPartialUpdate :: "engine \<Rightarrow> jsobj \<Rightarrow> jsobj \<Rightarrow> error + partial_update" where
  "sqlForPartialUpdate e dataToUpdate jsToSql =
     (let keys = Object_keys dataToUpdate in
      if length keys = 0 then Inl (BadRequestError ''No data'')
      else
        let cols = map (col_assignment e jsToSql) (List.enumerate 0 keys)
        in Inr \<lparr>setCols = join '', '' cols, values = Object_values dataToUpdate\<rparr>)"

section \<open>models/company.js and models/job.js: getByFilter\<close>

text \<open>
  Both functions keep three locals: the query text, the bound values and the WHERE
  fragments. Each recognised filter runs the same three statements
  \<^verbatim>\<open>
      values.push(v)
      let subquery = `<text>$${values.length}`
      whereFilters.push(subquery)
  \<close>
  which is \<open>push_filter v text\<close>. The query goes to \<^verbatim>\<open>db.query(queryString, values)\<close>;
  the database is a parameter of the model.
\<close>

record locals =
  queryString :: string
  "values" :: "jsval list"
  whereFilters :: "string list"

definition push_filter :: "jsval \<Rightarrow> string \<Rightarrow> locals \<Rightarrow> locals" where
  "push_filter v text s =
     (let vs = locals.values s @ [v];
          subquery = text @ nat_str (length vs)
      in s\<lparr>values := vs, whereFilters := whereFilters s @ [subquery]\<rparr>)"

text \<open>
  \<^verbatim>\<open>
  static async getByFilter(filters) {
    for (let key in filters) {
      if (key !== "name" & key !== "maxEmployees" & key !== "minEmployees") {
        throw new BadRequestError('Invalid filters included')
      }
    }
    let queryString = `SELECT handle, name, description, num_employees as "numEmployees", logo_URL AS "logoUrl" FROM companies WHERE `
    let values = []
    let whereFilters = []
    if (filters.maxEmployees < filters.minEmployees) {
      throw new BadRequestError("Max/min employees filters are not valid")
    }
    if (filters.name) {
      values.push(`%${filters.name}%`)
      let subquery = `name ILIKE $${values.length}`
      whereFilters.push(subquery)
    }
    if (filters.maxEmployees) {
      values.push(filters.maxEmployees)
      let subquery = `num_employees <= $${values.length}`
      whereFilters.push(subquery)
    }
    if (filters.minEmployees) {
      values.push(filters.minEmployees)
      let subquery = `num_employees >= $${values.length}`
      whereFilters.push(subquery)
    }
    queryString += whereFilters.join(" AND ")
    console.log(queryString, values)

    const results = await db.query(queryString, values)
    return results.rows;
  }
  \<close>
  The operator \<^verbatim>\<open>&\<close> works on the numbers 1 and 0 that the three comparisons convert to,
  and the \<^verbatim>\<open>if\<close> tests whether its result is not 0. The line printed by
  \<^verbatim>\<open>console.log\<close> is not part of the result and is left out.
\<close>

fun Company_check_keys :: "string list \<Rightarrow> error + unit" where
  "Company_check_keys [] = Inr ()"
| "Company_check_keys (key # rest) =
     (if (of_bool (key \<noteq> ''name'') AND of_bool (key \<noteq> ''maxEmployees'')
            AND of_bool (key \<noteq> ''minEmployees'')) \<noteq> (0 :: int)
      then Inl (BadRequestError ''Invalid filters included'')
      else Company_check_keys rest)"

definition Company_select :: string where
  \<open>Company_select =
     ''SELECT handle, name, description, num_employees as "numEmployees", logo_URL AS "logoUrl" FROM companies WHERE ''\<close>

definition Company_build :: "engine \<Rightarrow> jsobj \<Rightarrow> error + locals" where
  \<comment> \<open>the body of \<^verbatim>\<open>Company.getByFilter\<close> up to the call of \<^verbatim>\<open>db.query\<close>\<close>
  "Company_build e filters =
     (case Company_check_keys (Object_keys filters) of
        Inl err \<Rightarrow> Inl err
      | Inr _ \<Rightarrow>
          let s0 = \<lparr>queryString = Company_select, values = [], whereFilters = []\<rparr> in
          if js_lt e (prop_get filters ''maxEmployees'') (prop_get filters ''minEmployees'')
          then Inl (BadRequestError ''Max/min employees filters are not valid'')
          else
            let s1 = (if ToBoolean (prop_get filters ''name'')
                      then push_filter (JStr (''%'' @ ToString e (prop_get filters ''name'') @ ''%''))
                             ''name ILIKE $'' s0
                      else s0);
                s2 = (if ToBoolean (prop_get filters ''maxEmployees'')
                      then push_filter (prop_get filters ''maxEmployees'') ''num_employees <= $'' s1
                      else s1);
                s3 = (if ToBoolean (prop_get filters ''minEmployees'')
                      then push_filter (prop_get filters ''minEmployees'') ''num_employees >= $'' s2
                      else s2)
            in Inr (s3\<lparr>queryString := queryString s3 @ join '' AND '' (whereFilters s3)\<rparr>))"

definition Company_getByFilter ::
  "engine \<Rightarrow> (string \<Rightarrow> jsval list \<Rightarrow> error + 'rows) \<Rightarrow> jsobj \<Rightarrow> error + 'rows" where
  "Company_getByFilter e db_query filters =
     (case Company_build e filters of
        Inl err \<Rightarrow> Inl err
      | Inr s \<Rightarrow> db_query (queryString s) (locals.values s))"

text \<open>
  \<^verbatim>\<open>
  static async getByFilter(filters) {
    for (let key in filters) {
      if (key !== "title" & key !== "minSalary" & key !== "hasEquity") {
        throw new BadRequestError('Invalid filters included')
      }
    }
    let queryString = `SELECT title, salary, equity, company_handle as "companyHandle" FROM jobs WHERE `
    let values = []
    let whereFilters = []
    if (filters.equity >= 0.1) {
      throw new BadRequestError("Invalid equity")
    }
    if (filters.title) {
      values.push(`%${filters.title}%`)
      let subquery = `title ILIKE $${values.length}`
      whereFilters.push(subquery)
    }
    if (filters.minSalary) {
      values.push(filters.minSalary)
      let subquery = `salary >= $${values.length}`
      whereFilters.push(subquery)
    }
    if (filters.hasEquity === true) {
      let subquery = `equity IS NOT NULL AND equity > 0`
      whereFilters.push(subquery)
    }
    queryString += whereFilters.join(" AND ")
    const results = await db.query(queryString, values)
    return results.rows;
  }
  \<close>
  The literal \<^verbatim>\<open>0.1\<close> is the least double that is at least one tenth, so a double is
  \<^verbatim>\<open>>= 0.1\<close> exactly when its value is at least the rational \<open>1/10\<close>.
\<close>

fun Job_check_keys :: "string list \<Rightarrow> error + unit" where
  "Job_check_keys [] = Inr ()"
| "Job_check_keys (key # rest) =
     (if (of_bool (key \<noteq> ''title'') AND of_bool (key \<noteq> ''minSalary'')
            AND of_bool (key \<noteq> ''hasEquity'')) \<noteq> (0 :: int)
      then Inl (BadRequestError ''Invalid filters included'')
      else Job_check_keys rest)"

definition Job_select :: string where
  \<open>Job_select =
     ''SELECT title, salary, equity, company_handle as "companyHandle" FROM jobs WHERE ''\<close>

definition Job_build :: "engine \<Rightarrow> jsobj \<Rightarrow> error + locals" where
  \<comment> \<open>the body of \<^verbatim>\<open>Job.getByFilter\<close> up to the call of \<^verbatim>\<open>db.query\<close>\<close>
  "Job_build e filters =
     (case Job_check_keys (Object_keys filters) of
        Inl err \<Rightarrow> Inl err
      | Inr _ \<Rightarrow>
          let s0 = \<lparr>queryString = Job_select, values = [], whereFilters = []\<rparr> in
          if js_ge e (prop_get filters ''equity'') (JNum (Finite (1 / 10)))
          then Inl (BadRequestError ''Invalid equity'')
          else
            let s1 = (if ToBoolean (prop_get filters ''title'')
                      then push_filter (JStr (''%'' @ ToString e (prop_get filters ''title'') @ ''%''))
                             ''title ILIKE $'' s0
                      else s0);
                s2 = (if ToBoolean (prop_get filters ''minSalary'')
                      then push_filter (prop_get filters ''minSalary'') ''salary >= $'' s1
                      else s1);
                s3 = (if prop_get filters ''hasEquity'' = JBool True
                      then s2\<lparr>whereFilters := whereFilters s2 @ [''equity IS NOT NULL AND equity > 0'']\<rparr>
                      else s2)
            in Inr (s3\<lparr>queryString := queryString s3 @ join '' AND '' (whereFilters s3)\<rparr>))"

definition Job_getByFilter ::
  "engine \<Rightarrow> (string \<Rightarrow> jsval list \<Rightarrow> error + 'rows) \<Rightarrow> jsobj \<Rightarrow> error + 'rows" where
  "Job_getByFilter e db_query filters =
     (case Job_build e filters of
        Inl err \<Rightarrow> Inl err
      | Inr s \<Rightarrow> db_query (queryString s) (locals.values s))"

section \<open>Notions used to state the properties\<close>

text \<open>
  The positional parameters of a clause, as the database reads it: a dollar sign
  followed by digits, outside a double-quoted identifier. The flag says whether the
  scan is inside such an identifier (a doubled quote inside one closes and reopens it).
\<close>

definition is_digit :: "char \<Rightarrow> bool" where
  "is_digit c = (c \<in> set ''0123456789'')"

definition digits_val :: "string \<Rightarrow> nat" where
  "digits_val ds = foldl (\<lambda>a c. 10 * a + (of_char c - 48)) 0 ds"

fun placeholders :: "bool \<Rightarrow> string \<Rightarrow> nat list" where
  "placeholders q [] = []"
| "placeholders q (c # cs) =
     (if c = CHR 0x22 then placeholders (\<not> q) cs
      else if \<not> q \<and> c = CHR ''$'' \<and> takeWhile is_digit cs \<noteq> []
      then digits_val (takeWhile is_digit cs) # placeholders q cs
      else placeholders q cs)"

definition no_digit_next :: "string \<Rightarrow> bool" where
  \<comment> \<open>the text that follows a parameter does not go on with a digit\<close>
  "no_digit_next ys = (case ys of [] \<Rightarrow> True | y # _ \<Rightarrow> \<not> is_digit y)"

text \<open>
  The column of a key as the specification words it: the entry of the column map when
  the key is present in the map, the key itself otherwise; and the SET clause built from
  these columns.
\<close>

definition spec_column :: "engine \<Rightarrow> jsobj \<Rightarrow> string \<Rightarrow> string" where
  "spec_column e columnMap k =
     (case map_of columnMap k of Some c \<Rightarrow> ToString e c | None \<Rightarrow> k)"

definition spec_setCols :: "engine \<Rightarrow> jsobj \<Rightarrow> jsobj \<Rightarrow> string" where
  \<open>spec_setCols e payload columnMap =
     join '', '' (map (\<lambda>(i, k). ''"'' @ spec_column e columnMap k @ ''"=$'' @ nat_str (i + 1))
                      (List.enumerate 0 (map fst payload)))\<close>

text \<open>
  The column the code resolves for a key: \<^verbatim>\<open>jsToSql[colName] || colName\<close> as text.
\<close>

definition column_of :: "engine \<Rightarrow> jsobj \<Rightarrow> string \<Rightarrow> string" where
  "column_of e jsToSql colName =
     (if ToBoolean (prop_get jsToSql colName) then ToString e (prop_get jsToSql colName)
      else colName)"

text \<open>
  An engine to evaluate the model at concrete inputs. The inputs used below never print
  a number that is not an integer and never compare a string with a number, so neither
  of its two functions is consulted.
\<close>

definition sample_engine :: engine where
  "sample_engine = \<lparr>number_digits = (\<lambda>q. ''''), string_number = (\<lambda>s. NaN)\<rparr>"

section \<open>Auxiliary facts\<close>

lemma of_bool_AND3:
  "((of_bool a AND of_bool b AND of_bool c) \<noteq> (0 :: int)) = (a \<and> b \<and> c)"
  by (cases a; cases b; cases c) simp_all

lemma prop_get_absent:
  "k \<notin> set (Object_keys obj) \<Longrightarrow> Object_prototype k = None \<Longrightarrow> prop_get obj k = JUndefined"
  by (simp add: prop_get_def Object_keys_def map_of_eq_None_iff [THEN iffD2])

lemma Object_prototype_truthy: "Object_prototype k = Some v \<Longrightarrow> ToBoolean v"
  by (auto simp add: Object_prototype_def split: if_splits)

lemma Object_prototype_filter_keys:
  "Object_prototype ''name'' = None" "Object_prototype ''maxEmployees'' = None"
  "Object_prototype ''minEmployees'' = None" "Object_prototype ''title'' = None"
  "Object_prototype ''minSalary'' = None" "Object_prototype ''hasEquity'' = None"
  "Object_prototype ''equity'' = None"
  by (simp_all add: Object_prototype_def)

lemma num_less_NaN_right: "num_less n NaN = None"
  by (cases n) simp_all

lemma IsLessThan_undefined_left: "IsLessThan e JUndefined y = None"
  by (cases y) (simp_all add: IsLessThan_def)

lemma IsLessThan_undefined_right: "IsLessThan e x JUndefined = None"
  by (cases x) (simp_all add: IsLessThan_def num_less_NaN_right)

lemma Company_check_keys_ok:
  "\<forall>k\<in>set ks. k \<in> {''name'', ''minEmployees'', ''maxEmployees''} \<Longrightarrow> Company_check_keys ks = Inr ()"
  by (induction ks) (auto simp add: of_bool_AND3)

lemma Company_check_keys_bad:
  "k \<in> set ks \<Longrightarrow> k \<notin> {''name'', ''minEmployees'', ''maxEmployees''}
     \<Longrightarrow> Company_check_keys ks = Inl (BadRequestError ''Invalid filters included'')"
  by (induction ks) (auto simp add: of_bool_AND3)

lemma Company_check_keys_Inl:
  "Company_check_keys ks = Inl err \<Longrightarrow> err = BadRequestError ''Invalid filters included''"
  by (induction ks) (simp_all split: if_splits)

lemma Company_check_keys_Inr:
  "Company_check_keys ks = Inr u \<Longrightarrow> k \<in> set ks \<Longrightarrow> k \<in> {''name'', ''minEmployees'', ''maxEmployees''}"
  using Company_check_keys_bad [of k ks] by (cases "k \<in> {''name'', ''minEmployees'', ''maxEmployees''}") simp_all

lemma Job_check_keys_ok:
  "\<forall>k\<in>set ks. k \<in> {''title'', ''minSalary'', ''hasEquity''} \<Longrightarrow> Job_check_keys ks = Inr ()"
  by (induction ks) (auto simp add: of_bool_AND3)

lemma Job_check_keys_bad:
  "k \<in> set ks \<Longrightarrow> k \<notin> {''title'', ''minSalary'', ''hasEquity''}
     \<Longrightarrow> Job_check_keys ks = Inl (BadRequestError ''Invalid filters included'')"
  by (induction ks) (auto simp add: of_bool_AND3)

lemma Job_check_keys_Inl:
  "Job_check_keys ks = Inl err \<Longrightarrow> err = BadRequestError ''Invalid filters included''"
  by (induction ks) (simp_all split: if_splits)

lemma Job_check_keys_Inr:
  "Job_check_keys ks = Inr u \<Longrightarrow> k \<in> set ks \<Longrightarrow> k \<in> {''title'', ''minSalary'', ''hasEquity''}"
  using Job_check_keys_bad [of k ks] by (cases "k \<in> {''title'', ''minSalary'', ''hasEquity''}") simp_all

section \<open>Properties of sqlForPartialUpdate\<close>

lemma col_assignment_eq:
  \<open>col_assignment e jsToSql (i, k) =
     ''"'' @ column_of e jsToSql k @ ''"=$'' @ nat_str (i + 1)\<close>
  by (simp add: col_assignment_def column_of_def js_or_def)

lemma column_of_cases:
  "column_of e jsToSql k =
     (case map_of jsToSql k of
        Some c \<Rightarrow> if ToBoolean c then ToString e c else k
      | None \<Rightarrow> (case Object_prototype k of Some f \<Rightarrow> ToString e f | None \<Rightarrow> k))"
proof (cases "map_of jsToSql k")
  case (Some c)
  then show ?thesis
    by (simp add: column_of_def prop_get_def)
next
  case None
  show ?thesis
  proof (cases "Object_prototype k")
    case None
    with \<open>map_of jsToSql k = None\<close> show ?thesis
      by (simp add: column_of_def prop_get_def)
  next
    case (Some f)
    then have "ToBoolean f"
      by (rule Object_prototype_truthy)
    with Some \<open>map_of jsToSql k = None\<close> show ?thesis
      by (simp add: column_of_def prop_get_def)
  qed
qed

lemma sqlForPartialUpdate_Inr:
  "Object_keys dataToUpdate \<noteq> [] \<Longrightarrow>
   sqlForPartialUpdate e dataToUpdate jsToSql =
     Inr \<lparr>setCols = join '', '' (map (col_assignment e jsToSql)
                                     (List.enumerate 0 (Object_keys dataToUpdate))),
          partial_update.values = map snd dataToUpdate\<rparr>"
  by (simp add: sqlForPartialUpdate_def Let_def Object_values_def)

lemma nth_cols:
  "i < length ks \<Longrightarrow>
   map (col_assignment e jsToSql) (List.enumerate 0 ks) ! i = col_assignment e jsToSql (i, ks ! i)"
  by (simp add: nth_enumerate_eq)

text \<open>
  Claim C1, as the code has it. For a payload with keys \<open>k\<^sub>1 \<dots> k\<^sub>n\<close> (\<open>n > 0\<close>) in
  the order \<^verbatim>\<open>Object.keys\<close> gives them, \<^verbatim>\<open>sqlForPartialUpdate\<close> returns: setCols, the
  join with ", " of \<open>n\<close> assignments, the i-th being \<^verbatim>\<open>"<c>"=$<i>\<close> (counting from 1);
  and values, the \<open>n\<close> values of the payload in the order of the keys. The column \<open>c\<close>
  is what \<^verbatim>\<open>jsToSql[k] || k\<close> gives as text:
  \<^item> the map's own entry for \<open>k\<^sub>i\<close> as text, when the key is in the map with a truthy
    entry;
  \<^item> \<open>k\<^sub>i\<close> itself, when the key is in the map with a falsy entry;
  \<^item> the text of the property the map inherits from \<^verbatim>\<open>Object.prototype\<close>, when the key
    is not in the map and names such a property (constructor, toString, valueOf, ...);
  \<^item> \<open>k\<^sub>i\<close> itself, when the key is not in the map and names no such property.

  The claim as worded takes the map's entry whenever the key is present and the key
  whenever it is absent.
\<close>

theorem sqlForPartialUpdate_assignments:
  assumes "Object_keys dataToUpdate \<noteq> []"
  shows \<open>\<exists>r cols.
     sqlForPartialUpdate e dataToUpdate jsToSql = Inr r
     \<and> setCols r = join '', '' cols
     \<and> length cols = length (Object_keys dataToUpdate)
     \<and> length (partial_update.values r) = length (Object_keys dataToUpdate)
     \<and> (\<forall>i < length (Object_keys dataToUpdate).
          cols ! i =
            ''"'' @ (case map_of jsToSql (Object_keys dataToUpdate ! i) of
                       Some c \<Rightarrow> if ToBoolean c then ToString e c
                                 else Object_keys dataToUpdate ! i
                     | None \<Rightarrow>
                         (case Object_prototype (Object_keys dataToUpdate ! i) of
                            Some f \<Rightarrow> ToString e f
                          | None \<Rightarrow> Object_keys dataToUpdate ! i))
                  @ ''"=$'' @ nat_str (i + 1)
          \<and> partial_update.values r ! i = snd (dataToUpdate ! i))\<close>
proof -
  let ?ks = "Object_keys dataToUpdate"
  let ?cols = "map (col_assignment e jsToSql) (List.enumerate 0 ?ks)"
  let ?r = "\<lparr>setCols = join '', '' ?cols, partial_update.values = map snd dataToUpdate\<rparr>"
  have res: "sqlForPartialUpdate e dataToUpdate jsToSql = Inr ?r"
    using assms by (rule sqlForPartialUpdate_Inr)
  have len: "length ?ks = length dataToUpdate"
    by (simp add: Object_keys_def)
  have each: \<open>?cols ! i =
            ''"'' @ (case map_of jsToSql (?ks ! i) of
                       Some c \<Rightarrow> if ToBoolean c then ToString e c else ?ks ! i
                     | None \<Rightarrow>
                         (case Object_prototype (?ks ! i) of
                            Some f \<Rightarrow> ToString e f
                          | None \<Rightarrow> ?ks ! i))
                  @ ''"=$'' @ nat_str (i + 1)
          \<and> partial_update.values ?r ! i = snd (dataToUpdate ! i)\<close>
    if "i < length ?ks" for i
  proof -
    have "?cols ! i = col_assignment e jsToSql (i, ?ks ! i)"
      using that by (rule nth_cols)
    moreover have "i < length dataToUpdate"
      using that len by simp
    ultimately show ?thesis
      by (simp add: col_assignment_eq column_of_cases)
  qed
  show ?thesis
    using res each by (intro exI [of _ ?r] exI [of _ ?cols]) (simp add: len)
qed

theorem sqlForPartialUpdate_assignments_witness:
  \<open>sqlForPartialUpdate sample_engine
       [(''firstname'', JStr ''Max''), (''age'', JNum (Finite 32))]
       [(''firstname'', JStr ''first_name'')]
     = Inr \<lparr>setCols = ''"first_name"=$1, "age"=$2'',
            partial_update.values = [JStr ''Max'', JNum (Finite 32)]\<rparr>\<close>
proof -
  let ?d = "[(''firstname'', JStr ''Max''), (''age'', JNum (Finite 32))]"
  let ?m = "[(''firstname'', JStr ''first_name'')]"
  have ne: "Object_keys ?d \<noteq> []"
    by (simp add: Object_keys_def)
  obtain r cols where
    r: "sqlForPartialUpdate sample_engine ?d ?m = Inr r"
    and sc: "setCols r = join '', '' cols"
    and lc: "length cols = length (Object_keys ?d)"
    and lv: "length (partial_update.values r) = length (Object_keys ?d)"
    and each: \<open>\<forall>i < length (Object_keys ?d).
          cols ! i =
            ''"'' @ (case map_of ?m (Object_keys ?d ! i) of
                       Some c \<Rightarrow> if ToBoolean c then ToString sample_engine c
                                 else Object_keys ?d ! i
                     | None \<Rightarrow>
                         (case Object_prototype (Object_keys ?d ! i) of
                            Some f \<Rightarrow> ToString sample_engine f
                          | None \<Rightarrow> Object_keys ?d ! i))
                  @ ''"=$'' @ nat_str (i + 1)
          \<and> partial_update.values r ! i = snd (?d ! i)\<close>
    using sqlForPartialUpdate_assignments [OF ne, of sample_engine ?m] by blast
  have two: "length (Object_keys ?d) = 2"
    by (simp add: Object_keys_def)
  from each two have c0: \<open>cols ! 0 = ''"first_name"=$1''\<close>
    and v0: "partial_update.values r ! 0 = JStr ''Max''"
    by (simp_all add: Object_keys_def nat_str.simps)
  from each two have c1: \<open>cols ! 1 = ''"age"=$2''\<close>
    and v1: "partial_update.values r ! 1 = JNum (Finite 32)"
    by (simp_all add: Object_keys_def Object_prototype_def nat_str.simps)
  from lc two c0 c1 have cols: \<open>cols = [''"first_name"=$1'', ''"age"=$2'']\<close>
    by (cases cols; cases "tl cols"; cases "tl (tl cols)") auto
  from lv two v0 v1 have vals: "partial_update.values r = [JStr ''Max'', JNum (Finite 32)]"
    by (cases "partial_update.values r"; cases "tl (partial_update.values r)";
        cases "tl (tl (partial_update.values r))") auto
  from sc cols have "setCols r = ''\"first_name\"=$1, \"age\"=$2''"
    by simp
  with vals r show ?thesis
    by simp
qed

text \<open>
  Two inputs where the wording of the claim and the code part. The payload \<^verbatim>\<open>{a: 1}\<close>
  with the map \<^verbatim>\<open>{a: ""}\<close>: the key is present in the map, the claim gives \<^verbatim>\<open>""=$1\<close>,
  and the code gives \<^verbatim>\<open>"a"=$1\<close>. The payload \<^verbatim>\<open>{constructor: 1}\<close> with the empty map
  \<^verbatim>\<open>{}\<close>: the key is absent from the map, the claim gives \<^verbatim>\<open>"constructor"=$1\<close>, and the
  code gives the text of the function the map inherits.
\<close>

theorem sqlForPartialUpdate_falsy_entry_counterexample:
  \<open>sqlForPartialUpdate sample_engine [(''a'', JNum (Finite 1))] [(''a'', JStr '''')]
     = Inr \<lparr>setCols = ''"a"=$1'', partial_update.values = [JNum (Finite 1)]\<rparr>
   \<and> spec_setCols sample_engine [(''a'', JNum (Finite 1))] [(''a'', JStr '''')] = ''""=$1''
   \<and> sqlForPartialUpdate sample_engine [(''a'', JNum (Finite 1))] [(''a'', JStr '''')]
     \<noteq> Inr \<lparr>setCols = spec_setCols sample_engine [(''a'', JNum (Finite 1))] [(''a'', JStr '''')],
            partial_update.values = [JNum (Finite 1)]\<rparr>
   \<and> sqlForPartialUpdate sample_engine [(''constructor'', JNum (Finite 1))] []
     = Inr \<lparr>setCols = ''"function Object() { [native code] }"=$1'',
            partial_update.values = [JNum (Finite 1)]\<rparr>
   \<and> spec_setCols sample_engine [(''constructor'', JNum (Finite 1))] [] = ''"constructor"=$1''
   \<and> sqlForPartialUpdate sample_engine [(''constructor'', JNum (Finite 1))] []
     \<noteq> Inr \<lparr>setCols = spec_setCols sample_engine [(''constructor'', JNum (Finite 1))] [],
            partial_update.values = [JNum (Finite 1)]\<rparr>\<close>
  by (simp add: sqlForPartialUpdate_def Object_keys_def Object_values_def col_assignment_def
      js_or_def prop_get_def Object_prototype_def spec_setCols_def spec_column_def nat_str.simps)

text \<open>
  Claim C10. The fallback to the key itself is taken whenever \<^verbatim>\<open>jsToSql[key]\<close> is falsy.
  That is so when the key is in the map with the empty string, 0, NaN, \<^verbatim>\<open>null\<close>,
  \<^verbatim>\<open>undefined\<close> or \<^verbatim>\<open>false\<close>, and when the key is not in the map and names no property of
  \<^verbatim>\<open>Object.prototype\<close> (the read then gives \<^verbatim>\<open>undefined\<close>); in no other case. For the key at
  any position \<open>i\<close> of the payload whose entry is falsy, the i-th assignment of setCols
  is \<^verbatim>\<open>"<key>"=$<i+1>\<close>. The payload \<^verbatim>\<open>{a: 1}\<close> with the map \<^verbatim>\<open>{a: ""}\<close> yields \<^verbatim>\<open>"a"=$1\<close>.
\<close>

theorem sqlForPartialUpdate_fallback_on_falsy:
  \<open>((\<not> ToBoolean (prop_get jsToSql k)) =
      (map_of jsToSql k \<in> {Some JUndefined, Some JNull, Some (JBool False),
                             Some (JNum NaN), Some (JNum (Finite 0)), Some (JStr '''')}
       \<or> map_of jsToSql k = None \<and> Object_prototype k = None))
   \<and> (i < length dataToUpdate \<and> \<not> ToBoolean (prop_get jsToSql (fst (dataToUpdate ! i))) \<longrightarrow>
       (\<exists>r cols.
          sqlForPartialUpdate e dataToUpdate jsToSql = Inr r
          \<and> setCols r = join '', '' cols
          \<and> length cols = length dataToUpdate
          \<and> cols ! i = ''"'' @ fst (dataToUpdate ! i) @ ''"=$'' @ nat_str (i + 1)))\<close>
proof (intro conjI impI)
  show "(\<not> ToBoolean (prop_get jsToSql k)) =
      (map_of jsToSql k \<in> {Some JUndefined, Some JNull, Some (JBool False),
                             Some (JNum NaN), Some (JNum (Finite 0)), Some (JStr '''')}
       \<or> map_of jsToSql k = None \<and> Object_prototype k = None)"
  proof (cases "map_of jsToSql k")
    case None
    show ?thesis
    proof (cases "Object_prototype k")
      case None
      with \<open>map_of jsToSql k = None\<close> show ?thesis
        by (simp add: prop_get_def)
    next
      case (Some f)
      then have "ToBoolean f"
        by (rule Object_prototype_truthy)
      with Some \<open>map_of jsToSql k = None\<close> show ?thesis
        by (simp add: prop_get_def)
    qed
  next
    case (Some v)
    then show ?thesis by (cases v) (auto simp add: prop_get_def)
  qed
next
  assume h: "i < length dataToUpdate \<and> \<not> ToBoolean (prop_get jsToSql (fst (dataToUpdate ! i)))"
  let ?ks = "Object_keys dataToUpdate"
  let ?cols = "map (col_assignment e jsToSql) (List.enumerate 0 ?ks)"
  let ?r = "\<lparr>setCols = join '', '' ?cols, partial_update.values = map snd dataToUpdate\<rparr>"
  from h have ne: "?ks \<noteq> []"
    by (auto simp add: Object_keys_def)
  have res: "sqlForPartialUpdate e dataToUpdate jsToSql = Inr ?r"
    using ne by (rule sqlForPartialUpdate_Inr)
  from h have "i < length ?ks"
    by (simp add: Object_keys_def)
  then have "?cols ! i = col_assignment e jsToSql (i, ?ks ! i)"
    by (rule nth_cols)
  with h have \<open>?cols ! i = ''"'' @ fst (dataToUpdate ! i) @ ''"=$'' @ nat_str (i + 1)\<close>
    by (simp add: col_assignment_eq column_of_def Object_keys_def)
  with res show \<open>\<exists>r cols.
          sqlForPartialUpdate e dataToUpdate jsToSql = Inr r
          \<and> setCols r = join '', '' cols
          \<and> length cols = length dataToUpdate
          \<and> cols ! i = ''"'' @ fst (dataToUpdate ! i) @ ''"=$'' @ nat_str (i + 1)\<close>
    by (intro exI [of _ ?r] exI [of _ ?cols]) (simp add: Object_keys_def)
qed

theorem sqlForPartialUpdate_fallback_on_falsy_witness:
  \<open>\<exists>r. sqlForPartialUpdate sample_engine [(''a'', JNum (Finite 1))] [(''a'', JStr '''')] = Inr r
       \<and> setCols r = ''"a"=$1''\<close>
proof -
  let ?d = "[(''a'', JNum (Finite 1))]"
  let ?m = "[(''a'', JStr '''')]"
  have h: "0 < length ?d \<and> \<not> ToBoolean (prop_get ?m (fst (?d ! 0)))"
    by (simp add: prop_get_def)
  obtain r cols where
    r: "sqlForPartialUpdate sample_engine ?d ?m = Inr r"
    and sc: "setCols r = join '', '' cols"
    and lc: "length cols = length ?d"
    and c0: \<open>cols ! 0 = ''"'' @ fst (?d ! 0) @ ''"=$'' @ nat_str (0 + 1)\<close>
    using sqlForPartialUpdate_fallback_on_falsy [of ?m "''a''" 0 ?d sample_engine] h by blast
  from lc c0 have \<open>cols = [''"a"=$1'']\<close>
    by (cases cols) (simp_all add: nat_str.simps)
  with sc r show ?thesis
    by simp
qed

text \<open>
  Claim C3. \<^verbatim>\<open>sqlForPartialUpdate\<close> throws a BadRequestError exactly when the payload
  has no key, whatever the column map holds: on a payload without keys the result is
  the error "No data", and on every payload with at least one key the function returns
  a result and throws nothing.
\<close>

theorem sqlForPartialUpdate_error_iff_no_keys:
  "((\<exists>msg. sqlForPartialUpdate e dataToUpdate jsToSql = Inl (BadRequestError msg))
      \<longleftrightarrow> Object_keys dataToUpdate = [])
   \<and> (Object_keys dataToUpdate = []
      \<longrightarrow> sqlForPartialUpdate e dataToUpdate jsToSql = Inl (BadRequestError ''No data''))
   \<and> (Object_keys dataToUpdate \<noteq> []
      \<longrightarrow> (\<exists>r. sqlForPartialUpdate e dataToUpdate jsToSql = Inr r))"
  by (simp add: sqlForPartialUpdate_def Let_def)

theorem sqlForPartialUpdate_error_iff_no_keys_witness:
  "sqlForPartialUpdate sample_engine [] [(''firstname'', JStr ''first_name'')]
     = Inl (BadRequestError ''No data'')
   \<and> (\<exists>r. sqlForPartialUpdate sample_engine [(''age'', JNum (Finite 32))] [] = Inr r)"
  using sqlForPartialUpdate_error_iff_no_keys
          [of sample_engine "[]" "[(''firstname'', JStr ''first_name'')]"]
        sqlForPartialUpdate_error_iff_no_keys
          [of sample_engine "[(''age'', JNum (Finite 32))]" "[]"]
  by (simp add: Object_keys_def)

section \<open>Validation in getByFilter\<close>

text \<open>
  Claim C4. In \<^verbatim>\<open>Company.getByFilter\<close>, a payload with a key outside name,
  minEmployees, maxEmployees fails with the BadRequestError "Invalid filters included":
  the loop over the keys throws before the locals exist, so nothing is built and no
  query reaches the database, whatever the database is. When every key is one of the
  three, this error is not raised.
\<close>

theorem Company_getByFilter_allow_list:
  "((\<exists>k\<in>set (Object_keys filters). k \<notin> {''name'', ''minEmployees'', ''maxEmployees''}) \<longrightarrow>
      Company_build e filters = Inl (BadRequestError ''Invalid filters included'') \<and>
      Company_getByFilter e db_query filters = Inl (BadRequestError ''Invalid filters included''))
   \<and> ((\<forall>k\<in>set (Object_keys filters). k \<in> {''name'', ''minEmployees'', ''maxEmployees''}) \<longrightarrow>
      Company_build e filters \<noteq> Inl (BadRequestError ''Invalid filters included''))"
proof (intro conjI impI)
  assume bad: "\<exists>k\<in>set (Object_keys filters). k \<notin> {''name'', ''minEmployees'', ''maxEmployees''}"
  then have "Company_check_keys (Object_keys filters) = Inl (BadRequestError ''Invalid filters included'')"
    using Company_check_keys_bad by blast
  then show b: "Company_build e filters = Inl (BadRequestError ''Invalid filters included'')"
    by (simp add: Company_build_def)
  show "Company_getByFilter e db_query filters = Inl (BadRequestError ''Invalid filters included'')"
    by (simp add: Company_getByFilter_def b)
next
  assume ok: "\<forall>k\<in>set (Object_keys filters). k \<in> {''name'', ''minEmployees'', ''maxEmployees''}"
  then have "Company_check_keys (Object_keys filters) = Inr ()"
    by (rule Company_check_keys_ok)
  then show "Company_build e filters \<noteq> Inl (BadRequestError ''Invalid filters included'')"
    by (simp add: Company_build_def Let_def)
qed

theorem Company_getByFilter_allow_list_witness:
  "Company_build sample_engine [(''type'', JNum (Finite 12))]
     = Inl (BadRequestError ''Invalid filters included'')
   \<and> Company_getByFilter sample_engine (\<lambda>q vs. Inr vs) [(''type'', JNum (Finite 12))]
     = Inl (BadRequestError ''Invalid filters included'')
   \<and> Company_build sample_engine [(''name'', JStr ''net''), (''minEmployees'', JNum (Finite 10))]
     \<noteq> Inl (BadRequestError ''Invalid filters included'')"
  using Company_getByFilter_allow_list
          [of "[(''type'', JNum (Finite 12))]" sample_engine "\<lambda>q vs. Inr vs"]
        Company_getByFilter_allow_list
          [of "[(''name'', JStr ''net''), (''minEmployees'', JNum (Finite 10))]" sample_engine]
  by (simp add: Object_keys_def)

text \<open>
  Claim C7. In \<^verbatim>\<open>Company.getByFilter\<close>, a payload in which \<^verbatim>\<open>maxEmployees < minEmployees\<close>
  is true (for two numbers: the first is below the second) fails with a BadRequestError;
  when its keys pass the allow-list the error is "Max/min employees filters are not
  valid", thrown before the first fragment is built, so no query reaches the database.
  When one of the two keys is missing, the missing one reads as \<^verbatim>\<open>undefined\<close>, the
  comparison is not true, and this error is not raised.
\<close>

theorem Company_getByFilter_min_max:
  "js_lt e (JNum (Finite x)) (JNum (Finite y)) = (x < y)
   \<and> (js_lt e (prop_get filters ''maxEmployees'') (prop_get filters ''minEmployees'') \<longrightarrow>
      (\<exists>msg. Company_build e filters = Inl (BadRequestError msg)) \<and>
      (\<exists>msg. Company_getByFilter e db_query filters = Inl (BadRequestError msg)))
   \<and> ((\<forall>k\<in>set (Object_keys filters). k \<in> {''name'', ''minEmployees'', ''maxEmployees''}) \<and>
       js_lt e (prop_get filters ''maxEmployees'') (prop_get filters ''minEmployees'') \<longrightarrow>
      Company_build e filters = Inl (BadRequestError ''Max/min employees filters are not valid'') \<and>
      Company_getByFilter e db_query filters
        = Inl (BadRequestError ''Max/min employees filters are not valid''))
   \<and> (''maxEmployees'' \<notin> set (Object_keys filters) \<or> ''minEmployees'' \<notin> set (Object_keys filters) \<longrightarrow>
      Company_build e filters \<noteq> Inl (BadRequestError ''Max/min employees filters are not valid''))"
proof (intro conjI impI)
  show "js_lt e (JNum (Finite x)) (JNum (Finite y)) = (x < y)"
    by (simp add: js_lt_def IsLessThan_def)
next
  assume lt: "js_lt e (prop_get filters ''maxEmployees'') (prop_get filters ''minEmployees'')"
  show "\<exists>msg. Company_build e filters = Inl (BadRequestError msg)"
  proof (cases "Company_check_keys (Object_keys filters)")
    case (Inl err)
    with Company_check_keys_Inl [OF Inl] show ?thesis by (simp add: Company_build_def)
  next
    case (Inr u)
    with lt show ?thesis by (simp add: Company_build_def)
  qed
  then show "\<exists>msg. Company_getByFilter e db_query filters = Inl (BadRequestError msg)"
    by (auto simp add: Company_getByFilter_def)
next
  assume h: "(\<forall>k\<in>set (Object_keys filters). k \<in> {''name'', ''minEmployees'', ''maxEmployees''}) \<and>
       js_lt e (prop_get filters ''maxEmployees'') (prop_get filters ''minEmployees'')"
  then have lt: "js_lt e (prop_get filters ''maxEmployees'') (prop_get filters ''minEmployees'')"
    by simp
  from h have "Company_check_keys (Object_keys filters) = Inr ()"
    using Company_check_keys_ok by blast
  with lt show b: "Company_build e filters = Inl (BadRequestError ''Max/min employees filters are not valid'')"
    by (simp add: Company_build_def)
  show "Company_getByFilter e db_query filters
        = Inl (BadRequestError ''Max/min employees filters are not valid'')"
    by (simp add: Company_getByFilter_def b)
next
  assume "''maxEmployees'' \<notin> set (Object_keys filters) \<or> ''minEmployees'' \<notin> set (Object_keys filters)"
  then have "prop_get filters ''maxEmployees'' = JUndefined \<or> prop_get filters ''minEmployees'' = JUndefined"
    using prop_get_absent [of "''maxEmployees''" filters] prop_get_absent [of "''minEmployees''" filters]
    by (auto simp add: Object_prototype_filter_keys)
  then have "\<not> js_lt e (prop_get filters ''maxEmployees'') (prop_get filters ''minEmployees'')"
    by (auto simp add: js_lt_def IsLessThan_undefined_left IsLessThan_undefined_right num_less_NaN_right)
  then show "Company_build e filters \<noteq> Inl (BadRequestError ''Max/min employees filters are not valid'')"
    using Company_check_keys_Inl [of "Object_keys filters"]
    by (cases "Company_check_keys (Object_keys filters)") (auto simp add: Company_build_def Let_def)
qed

theorem Company_getByFilter_min_max_witness:
  "js_lt sample_engine (JNum (Finite 5)) (JNum (Finite 10))
   \<and> Company_build sample_engine [(''maxEmployees'', JNum (Finite 5)), (''minEmployees'', JNum (Finite 10))]
     = Inl (BadRequestError ''Max/min employees filters are not valid'')
   \<and> Company_getByFilter sample_engine (\<lambda>q vs. Inr vs)
       [(''maxEmployees'', JNum (Finite 5)), (''minEmployees'', JNum (Finite 10))]
     = Inl (BadRequestError ''Max/min employees filters are not valid'')
   \<and> Company_build sample_engine [(''minEmployees'', JNum (Finite 10))]
     \<noteq> Inl (BadRequestError ''Max/min employees filters are not valid'')"
proof -
  let ?f = "[(''maxEmployees'', JNum (Finite 5)), (''minEmployees'', JNum (Finite 10))]"
  let ?g = "[(''minEmployees'', JNum (Finite 10))]"
  let ?db = "\<lambda>(q :: string) (vs :: jsval list). (Inr vs :: error + jsval list)"
  note t = Company_getByFilter_min_max [of sample_engine 5 10 ?f ?db]
  note u = Company_getByFilter_min_max [of sample_engine 5 10 ?g ?db]
  from t have lt: "js_lt sample_engine (JNum (Finite 5)) (JNum (Finite 10))"
    by simp
  then have "(\<forall>k\<in>set (Object_keys ?f). k \<in> {''name'', ''minEmployees'', ''maxEmployees''}) \<and>
       js_lt sample_engine (prop_get ?f ''maxEmployees'') (prop_get ?f ''minEmployees'')"
    by (simp add: Object_keys_def prop_get_def Object_prototype_def IsLessThan_def)
  with t [THEN conjunct2, THEN conjunct2, THEN conjunct1]
  have "Company_build sample_engine ?f
        = Inl (BadRequestError ''Max/min employees filters are not valid'') \<and>
      Company_getByFilter sample_engine ?db ?f
        = Inl (BadRequestError ''Max/min employees filters are not valid'')"
    by (rule mp)
  moreover have "''maxEmployees'' \<notin> set (Object_keys ?g) \<or> ''minEmployees'' \<notin> set (Object_keys ?g)"
    by (simp add: Object_keys_def)
  with u [THEN conjunct2, THEN conjunct2, THEN conjunct2]
  have "Company_build sample_engine ?g
      \<noteq> Inl (BadRequestError ''Max/min employees filters are not valid'')"
    by (rule mp)
  ultimately show ?thesis
    using lt by simp
qed

text \<open>
  Claim C9. On the empty payload both builders pass validation and raise nothing: no
  fragment is built, the WHERE fragment (the join of no fragments) is the empty string,
  the list of values is empty, and the query sent to the database is the SELECT text
  that ends in "WHERE " with no parameter.
\<close>

theorem getByFilter_empty_payload:
  "Company_build e [] = Inr \<lparr>queryString = Company_select, values = [], whereFilters = []\<rparr>
   \<and> Job_build e [] = Inr \<lparr>queryString = Job_select, values = [], whereFilters = []\<rparr>
   \<and> (case Company_build e [] of Inl err \<Rightarrow> False
       | Inr s \<Rightarrow> join '' AND '' (whereFilters s) = [] \<and> locals.values s = [])
   \<and> (case Job_build e [] of Inl err \<Rightarrow> False
       | Inr s \<Rightarrow> join '' AND '' (whereFilters s) = [] \<and> locals.values s = [])
   \<and> Company_getByFilter e db_query [] = db_query Company_select []
   \<and> Job_getByFilter e db_query [] = db_query Job_select []"
  by (simp add: Company_build_def Job_build_def Company_getByFilter_def Job_getByFilter_def
      Object_keys_def prop_get_def Object_prototype_def IsLessThan_def js_lt_def js_ge_def)

text \<open>
  Claim C8, as the code has it. \<^verbatim>\<open>Job.getByFilter\<close> tests \<^verbatim>\<open>filters.equity >= 0.1\<close> only
  after the loop over the keys, and equity is not a key that loop accepts. A payload with
  the key equity, whatever its value, fails with the BadRequestError "Invalid filters
  included" and no query reaches the database; the error "Invalid equity" is raised on
  no payload at all. At the payload with equity one half the claimed message is not the
  one raised.
\<close>

theorem Job_getByFilter_equity_rejected:
  "(''equity'' \<in> set (Object_keys filters) \<longrightarrow>
      Job_build e filters = Inl (BadRequestError ''Invalid filters included'') \<and>
      Job_getByFilter e db_query filters = Inl (BadRequestError ''Invalid filters included''))
   \<and> Job_build e filters \<noteq> Inl (BadRequestError ''Invalid equity'')"
proof (intro conjI impI)
  assume "''equity'' \<in> set (Object_keys filters)"
  then have "Job_check_keys (Object_keys filters) = Inl (BadRequestError ''Invalid filters included'')"
    by (rule Job_check_keys_bad) simp
  then show b: "Job_build e filters = Inl (BadRequestError ''Invalid filters included'')"
    by (simp add: Job_build_def)
  show "Job_getByFilter e db_query filters = Inl (BadRequestError ''Invalid filters included'')"
    by (simp add: Job_getByFilter_def b)
next
  show "Job_build e filters \<noteq> Inl (BadRequestError ''Invalid equity'')"
  proof (cases "Job_check_keys (Object_keys filters)")
    case (Inl err)
    then have "err = BadRequestError ''Invalid filters included''"
      by (rule Job_check_keys_Inl)
    with Inl show ?thesis by (simp add: Job_build_def)
  next
    case (Inr u)
    then have "''equity'' \<notin> set (Object_keys filters)"
      using Job_check_keys_Inr [of "Object_keys filters" u "''equity''"] by auto
    then have "prop_get filters ''equity'' = JUndefined"
      by (rule prop_get_absent) (rule Object_prototype_filter_keys)
    then have "\<not> js_ge e (prop_get filters ''equity'') (JNum (Finite (1 / 10)))"
      by (simp add: js_ge_def IsLessThan_def)
    with Inr show ?thesis by (simp add: Job_build_def Let_def)
  qed
qed

theorem Job_getByFilter_equity_rejected_witness:
  "Job_build sample_engine [(''equity'', JNum (Finite (1 / 2)))]
     = Inl (BadRequestError ''Invalid filters included'')
   \<and> Job_getByFilter sample_engine (\<lambda>q vs. Inr vs) [(''equity'', JNum (Finite (1 / 2)))]
     = Inl (BadRequestError ''Invalid filters included'')"
  using Job_getByFilter_equity_rejected
          [of "[(''equity'', JNum (Finite (1 / 2)))]" sample_engine "\<lambda>q vs. Inr vs"]
  by (simp add: Object_keys_def)

text \<open>
  The payload \<^verbatim>\<open>{equity: 0.5}\<close>: the value is at least 0.1, and the error raised is the one
  of the allow-list.
\<close>

theorem Job_getByFilter_equity_counterexample:
  "Job_build sample_engine [(''equity'', JNum (Finite (1 / 2)))]
     = Inl (BadRequestError ''Invalid filters included'')
   \<and> Job_build sample_engine [(''equity'', JNum (Finite (1 / 2)))]
     \<noteq> Inl (BadRequestError ''Invalid equity'')
   \<and> js_ge sample_engine (prop_get [(''equity'', JNum (Finite (1 / 2)))] ''equity'')
        (JNum (Finite (1 / 10)))"
  by (simp add: Job_build_def Object_keys_def prop_get_def Object_prototype_def IsLessThan_def js_ge_def)

section \<open>The fragments getByFilter builds\<close>

lemma nat_str_small:
  "nat_str (Suc 0) = ''1''" "nat_str (Suc (Suc 0)) = ''2''" "nat_str (Suc (Suc (Suc 0))) = ''3''"
  "nat_str 1 = ''1''" "nat_str 2 = ''2''" "nat_str 3 = ''3''"
  by (simp_all add: nat_str.simps)

lemma prop_get_cong_set:
  assumes "wf_obj a" and "wf_obj b" and "set a = set b"
  shows "prop_get a k = prop_get b k"
proof -
  from assms have "map_of a = map_of b"
    by (simp add: wf_obj_def map_of_inject_set)
  then show ?thesis
    by (simp add: prop_get_def)
qed

lemma Object_keys_cong_set: "set a = set b \<Longrightarrow> set (Object_keys a) = set (Object_keys b)"
  by (simp add: Object_keys_def)

lemma Company_build_ok:
  assumes "\<forall>k\<in>set (Object_keys filters). k \<in> {''name'', ''minEmployees'', ''maxEmployees''}"
    and "\<not> js_lt e (prop_get filters ''maxEmployees'') (prop_get filters ''minEmployees'')"
  shows "Company_build e filters =
     (let n = prop_get filters ''name'';
          mx = prop_get filters ''maxEmployees'';
          mn = prop_get filters ''minEmployees'';
          vals = (if ToBoolean n then [JStr (''%'' @ ToString e n @ ''%'')] else [])
                 @ (if ToBoolean mx then [mx] else [])
                 @ (if ToBoolean mn then [mn] else []);
          frags = (if ToBoolean n then [''name ILIKE $1''] else [])
                  @ (if ToBoolean mx
                     then [''num_employees <= $'' @ nat_str (length (filter ToBoolean [n]) + 1)]
                     else [])
                  @ (if ToBoolean mn
                     then [''num_employees >= $'' @ nat_str (length (filter ToBoolean [n, mx]) + 1)]
                     else [])
      in Inr \<lparr>queryString = Company_select @ join '' AND '' frags,
              values = vals, whereFilters = frags\<rparr>)"
proof -
  have "Company_check_keys (Object_keys filters) = Inr ()"
    using assms(1) by (rule Company_check_keys_ok)
  with assms(2) show ?thesis
    by (simp add: Company_build_def push_filter_def Let_def nat_str_small)
qed

lemma Job_build_ok:
  assumes "\<forall>k\<in>set (Object_keys filters). k \<in> {''title'', ''minSalary'', ''hasEquity''}"
  shows "Job_build e filters =
     (let t = prop_get filters ''title'';
          m = prop_get filters ''minSalary'';
          h = prop_get filters ''hasEquity'';
          vals = (if ToBoolean t then [JStr (''%'' @ ToString e t @ ''%'')] else [])
                 @ (if ToBoolean m then [m] else []);
          frags = (if ToBoolean t then [''title ILIKE $1''] else [])
                  @ (if ToBoolean m
                     then [''salary >= $'' @ nat_str (length (filter ToBoolean [t]) + 1)]
                     else [])
                  @ (if h = JBool True then [''equity IS NOT NULL AND equity > 0''] else [])
      in Inr \<lparr>queryString = Job_select @ join '' AND '' frags,
              values = vals, whereFilters = frags\<rparr>)"
proof -
  have ok: "Job_check_keys (Object_keys filters) = Inr ()"
    using assms by (rule Job_check_keys_ok)
  have "''equity'' \<notin> set (Object_keys filters)"
  proof
    assume "''equity'' \<in> set (Object_keys filters)"
    with assms have "''equity'' \<in> {''title'', ''minSalary'', ''hasEquity''}"
      by (rule bspec)
    then show False
      by simp
  qed
  then have "prop_get filters ''equity'' = JUndefined"
    by (rule prop_get_absent) (rule Object_prototype_filter_keys)
  then have "\<not> js_ge e (prop_get filters ''equity'') (JNum (Finite (1 / 10)))"
    by (simp add: js_ge_def IsLessThan_def)
  with ok show ?thesis
    by (simp add: Job_build_def push_filter_def Let_def nat_str_small)
qed

text \<open>
  Claim C5, as the code has it. For a jobs payload whose keys are all among title,
  minSalary, hasEquity, \<^verbatim>\<open>Job.getByFilter\<close> raises nothing and builds its fragments in the
  order title, minSalary, hasEquity, whatever the order of the keys in the payload:
  title, when its value is truthy, gives \<^verbatim>\<open>title ILIKE $1\<close> and binds the text
  \<^verbatim>\<open>%<title>%\<close>; minSalary, when its value is truthy, gives \<^verbatim>\<open>salary >= $<n>\<close>, \<open>n\<close> the
  number of values bound so far, and binds the value as it is; hasEquity gives
  \<^verbatim>\<open>equity IS NOT NULL AND equity > 0\<close>, with no value bound, exactly when its value is the
  boolean \<^verbatim>\<open>true\<close>. A title or minSalary that is present with a falsy value (the empty
  string, 0, NaN, \<^verbatim>\<open>null\<close>, \<^verbatim>\<open>undefined\<close>, \<^verbatim>\<open>false\<close>) gives nothing: the tests are
  \<^verbatim>\<open>if (filters.title)\<close> and \<^verbatim>\<open>if (filters.minSalary)\<close>. The fragments are joined with
  " AND " after the SELECT text, and that query goes to the database with the bound
  values. Two well-formed payloads with the same properties in different orders give the
  same result.
\<close>

theorem Job_getByFilter_fragments:
  "(\<forall>k\<in>set (Object_keys filters). k \<in> {''title'', ''minSalary'', ''hasEquity''}) \<longrightarrow>
     (let t = prop_get filters ''title'';
          m = prop_get filters ''minSalary'';
          h = prop_get filters ''hasEquity'';
          vals = (if ToBoolean t then [JStr (''%'' @ ToString e t @ ''%'')] else [])
                 @ (if ToBoolean m then [m] else []);
          frags = (if ToBoolean t then [''title ILIKE $1''] else [])
                  @ (if ToBoolean m
                     then [''salary >= $'' @ nat_str (length (filter ToBoolean [t]) + 1)]
                     else [])
                  @ (if h = JBool True then [''equity IS NOT NULL AND equity > 0''] else [])
      in Job_build e filters
           = Inr \<lparr>queryString = Job_select @ join '' AND '' frags,
                  values = vals, whereFilters = frags\<rparr>
         \<and> Job_getByFilter e db_query filters
           = db_query (Job_select @ join '' AND '' frags) vals)
     \<and> (\<forall>filters'. wf_obj filters \<and> wf_obj filters' \<and> set filters' = set filters
           \<longrightarrow> Job_build e filters' = Job_build e filters)"
proof (intro impI conjI allI)
  assume keys: "\<forall>k\<in>set (Object_keys filters). k \<in> {''title'', ''minSalary'', ''hasEquity''}"
  show "let t = prop_get filters ''title'';
          m = prop_get filters ''minSalary'';
          h = prop_get filters ''hasEquity'';
          vals = (if ToBoolean t then [JStr (''%'' @ ToString e t @ ''%'')] else [])
                 @ (if ToBoolean m then [m] else []);
          frags = (if ToBoolean t then [''title ILIKE $1''] else [])
                  @ (if ToBoolean m
                     then [''salary >= $'' @ nat_str (length (filter ToBoolean [t]) + 1)]
                     else [])
                  @ (if h = JBool True then [''equity IS NOT NULL AND equity > 0''] else [])
      in Job_build e filters
           = Inr \<lparr>queryString = Job_select @ join '' AND '' frags,
                  values = vals, whereFilters = frags\<rparr>
         \<and> Job_getByFilter e db_query filters
           = db_query (Job_select @ join '' AND '' frags) vals"
    unfolding Job_getByFilter_def Job_build_ok [OF keys] by (simp add: Let_def)
next
  fix filters'
  assume keys: "\<forall>k\<in>set (Object_keys filters). k \<in> {''title'', ''minSalary'', ''hasEquity''}"
    and same: "wf_obj filters \<and> wf_obj filters' \<and> set filters' = set filters"
  from same have "set (Object_keys filters') = set (Object_keys filters)"
    using Object_keys_cong_set by blast
  with keys have keys': "\<forall>k\<in>set (Object_keys filters'). k \<in> {''title'', ''minSalary'', ''hasEquity''}"
    by simp
  from same have "prop_get filters' k = prop_get filters k" for k
    using prop_get_cong_set by blast
  then show "Job_build e filters' = Job_build e filters"
    unfolding Job_build_ok [OF keys] Job_build_ok [OF keys'] by simp
qed

theorem Job_getByFilter_fragments_witness:
  "Job_build sample_engine
       [(''hasEquity'', JBool True), (''minSalary'', JNum (Finite 20)), (''title'', JStr ''j'')]
     = Inr \<lparr>queryString = Job_select
                @ ''title ILIKE $1 AND salary >= $2 AND equity IS NOT NULL AND equity > 0'',
            values = [JStr ''%j%'', JNum (Finite 20)],
            whereFilters = [''title ILIKE $1'', ''salary >= $2'',
                            ''equity IS NOT NULL AND equity > 0'']\<rparr>
   \<and> Job_build sample_engine [(''hasEquity'', JBool False)]
     = Inr \<lparr>queryString = Job_select, values = [], whereFilters = []\<rparr>
   \<and> Job_build sample_engine
       [(''title'', JStr ''j''), (''minSalary'', JNum (Finite 20)), (''hasEquity'', JBool True)]
     = Job_build sample_engine
       [(''hasEquity'', JBool True), (''minSalary'', JNum (Finite 20)), (''title'', JStr ''j'')]"
proof -
  let ?f = "[(''hasEquity'', JBool True), (''minSalary'', JNum (Finite 20)), (''title'', JStr ''j'')]"
  let ?f' = "[(''title'', JStr ''j''), (''minSalary'', JNum (Finite 20)), (''hasEquity'', JBool True)]"
  let ?g = "[(''hasEquity'', JBool False)]"
  have kf: "\<forall>k\<in>set (Object_keys ?f). k \<in> {''title'', ''minSalary'', ''hasEquity''}"
    by (simp add: Object_keys_def)
  have kg: "\<forall>k\<in>set (Object_keys ?g). k \<in> {''title'', ''minSalary'', ''hasEquity''}"
    by (simp add: Object_keys_def)
  have same: "wf_obj ?f \<and> wf_obj ?f' \<and> set ?f' = set ?f"
    by (auto simp add: wf_obj_def)
  note t = Job_getByFilter_fragments [of ?f sample_engine "\<lambda>q vs. Inr vs"]
  note u = Job_getByFilter_fragments [of ?g sample_engine "\<lambda>q vs. Inr vs"]
  from t kf have "Job_build sample_engine ?f
     = Inr \<lparr>queryString = Job_select
                @ ''title ILIKE $1 AND salary >= $2 AND equity IS NOT NULL AND equity > 0'',
            values = [JStr ''%j%'', JNum (Finite 20)],
            whereFilters = [''title ILIKE $1'', ''salary >= $2'',
                            ''equity IS NOT NULL AND equity > 0'']\<rparr>"
    by (simp add: Let_def prop_get_def Object_prototype_def IsLessThan_def nat_str_small)
  moreover from u kg have "Job_build sample_engine ?g
     = Inr \<lparr>queryString = Job_select, values = [], whereFilters = []\<rparr>"
    by (simp add: Let_def prop_get_def Object_prototype_def IsLessThan_def)
  moreover from t kf same have "Job_build sample_engine ?f' = Job_build sample_engine ?f"
    by blast
  ultimately show ?thesis
    by simp
qed

text \<open>
  The payloads \<^verbatim>\<open>{minSalary: 0}\<close> and \<^verbatim>\<open>{title: ""}\<close>: the key is present, its value is
  falsy, and no fragment is built and no value bound.
\<close>

theorem Job_getByFilter_zero_counterexample:
  "''minSalary'' \<in> set (Object_keys [(''minSalary'', JNum (Finite 0))])
   \<and> Job_build sample_engine [(''minSalary'', JNum (Finite 0))]
     = Inr \<lparr>queryString = Job_select, values = [], whereFilters = []\<rparr>
   \<and> ''title'' \<in> set (Object_keys [(''title'', JStr '''')])
   \<and> Job_build sample_engine [(''title'', JStr '''')]
     = Inr \<lparr>queryString = Job_select, values = [], whereFilters = []\<rparr>"
  by (simp add: Job_build_def Object_keys_def prop_get_def Object_prototype_def js_ge_def
      IsLessThan_def)

text \<open>
  Claim C6, as the code has it. For a companies payload that passes validation (its keys
  are among name, minEmployees, maxEmployees, and \<^verbatim>\<open>maxEmployees < minEmployees\<close> is not
  true), every recognised filter whose value is truthy gives its fragment and its bound
  value, in the order name, maxEmployees, minEmployees: name binds \<^verbatim>\<open>%<name>%\<close> and adds
  \<^verbatim>\<open>name ILIKE $<n>\<close>, maxEmployees binds its value and adds \<^verbatim>\<open>num_employees <= $<n>\<close>,
  minEmployees binds its value and adds \<^verbatim>\<open>num_employees >= $<n>\<close>, \<open>n\<close> being the number of
  values bound so far. A filter that is present with a falsy value (0, the empty
  string, \<^verbatim>\<open>null\<close>, \<^verbatim>\<open>false\<close>, NaN) gives nothing: the tests are \<^verbatim>\<open>if (filters.name)\<close>
  and the like. At the payload \<^verbatim>\<open>{maxEmployees: 0}\<close> the key is present, validation
  passes, and no fragment is built and no value bound.
\<close>

theorem Company_getByFilter_fragments:
  "(\<forall>k\<in>set (Object_keys filters). k \<in> {''name'', ''minEmployees'', ''maxEmployees''}) \<and>
   \<not> js_lt e (prop_get filters ''maxEmployees'') (prop_get filters ''minEmployees'') \<longrightarrow>
     (let n = prop_get filters ''name'';
          mx = prop_get filters ''maxEmployees'';
          mn = prop_get filters ''minEmployees'';
          vals = (if ToBoolean n then [JStr (''%'' @ ToString e n @ ''%'')] else [])
                 @ (if ToBoolean mx then [mx] else [])
                 @ (if ToBoolean mn then [mn] else []);
          frags = (if ToBoolean n then [''name ILIKE $1''] else [])
                  @ (if ToBoolean mx
                     then [''num_employees <= $'' @ nat_str (length (filter ToBoolean [n]) + 1)]
                     else [])
                  @ (if ToBoolean mn
                     then [''num_employees >= $'' @ nat_str (length (filter ToBoolean [n, mx]) + 1)]
                     else [])
      in Company_build e filters
           = Inr \<lparr>queryString = Company_select @ join '' AND '' frags,
                  values = vals, whereFilters = frags\<rparr>
         \<and> Company_getByFilter e db_query filters
           = db_query (Company_select @ join '' AND '' frags) vals)"
proof
  assume h: "(\<forall>k\<in>set (Object_keys filters). k \<in> {''name'', ''minEmployees'', ''maxEmployees''}) \<and>
   \<not> js_lt e (prop_get filters ''maxEmployees'') (prop_get filters ''minEmployees'')"
  then have keys: "\<forall>k\<in>set (Object_keys filters). k \<in> {''name'', ''minEmployees'', ''maxEmployees''}"
    and range: "\<not> js_lt e (prop_get filters ''maxEmployees'') (prop_get filters ''minEmployees'')"
    by simp_all
  show "let n = prop_get filters ''name'';
          mx = prop_get filters ''maxEmployees'';
          mn = prop_get filters ''minEmployees'';
          vals = (if ToBoolean n then [JStr (''%'' @ ToString e n @ ''%'')] else [])
                 @ (if ToBoolean mx then [mx] else [])
                 @ (if ToBoolean mn then [mn] else []);
          frags = (if ToBoolean n then [''name ILIKE $1''] else [])
                  @ (if ToBoolean mx
                     then [''num_employees <= $'' @ nat_str (length (filter ToBoolean [n]) + 1)]
                     else [])
                  @ (if ToBoolean mn
                     then [''num_employees >= $'' @ nat_str (length (filter ToBoolean [n, mx]) + 1)]
                     else [])
      in Company_build e filters
           = Inr \<lparr>queryString = Company_select @ join '' AND '' frags,
                  values = vals, whereFilters = frags\<rparr>
         \<and> Company_getByFilter e db_query filters
           = db_query (Company_select @ join '' AND '' frags) vals"
    unfolding Company_getByFilter_def Company_build_ok [OF keys range] by (simp add: Let_def)
qed

theorem Company_getByFilter_fragments_witness:
  "Company_build sample_engine
       [(''minEmployees'', JNum (Finite 10)), (''name'', JStr ''net''),
        (''maxEmployees'', JNum (Finite 50))]
     = Inr \<lparr>queryString = Company_select
                @ ''name ILIKE $1 AND num_employees <= $2 AND num_employees >= $3'',
            values = [JStr ''%net%'', JNum (Finite 50), JNum (Finite 10)],
            whereFilters = [''name ILIKE $1'', ''num_employees <= $2'',
                            ''num_employees >= $3'']\<rparr>
   \<and> Company_build sample_engine [(''minEmployees'', JNum (Finite 10))]
     = Inr \<lparr>queryString = Company_select @ ''num_employees >= $1'',
            values = [JNum (Finite 10)], whereFilters = [''num_employees >= $1'']\<rparr>"
proof -
  let ?f = "[(''minEmployees'', JNum (Finite 10)), (''name'', JStr ''net''),
        (''maxEmployees'', JNum (Finite 50))]"
  let ?g = "[(''minEmployees'', JNum (Finite 10))]"
  have hf: "(\<forall>k\<in>set (Object_keys ?f). k \<in> {''name'', ''minEmployees'', ''maxEmployees''}) \<and>
     \<not> js_lt sample_engine (prop_get ?f ''maxEmployees'') (prop_get ?f ''minEmployees'')"
    by (simp add: Object_keys_def prop_get_def Object_prototype_def IsLessThan_def js_lt_def)
  have hg: "(\<forall>k\<in>set (Object_keys ?g). k \<in> {''name'', ''minEmployees'', ''maxEmployees''}) \<and>
     \<not> js_lt sample_engine (prop_get ?g ''maxEmployees'') (prop_get ?g ''minEmployees'')"
    by (simp add: Object_keys_def prop_get_def Object_prototype_def IsLessThan_def js_lt_def)
  from Company_getByFilter_fragments [of ?f sample_engine "\<lambda>q vs. Inr vs"] hf
  have "Company_build sample_engine ?f
     = Inr \<lparr>queryString = Company_select
                @ ''name ILIKE $1 AND num_employees <= $2 AND num_employees >= $3'',
            values = [JStr ''%net%'', JNum (Finite 50), JNum (Finite 10)],
            whereFilters = [''name ILIKE $1'', ''num_employees <= $2'',
                            ''num_employees >= $3'']\<rparr>"
    by (simp add: Let_def prop_get_def Object_prototype_def IsLessThan_def nat_str_small)
  moreover from Company_getByFilter_fragments [of ?g sample_engine "\<lambda>q vs. Inr vs"] hg
  have "Company_build sample_engine ?g
     = Inr \<lparr>queryString = Company_select @ ''num_employees >= $1'',
            values = [JNum (Finite 10)], whereFilters = [''num_employees >= $1'']\<rparr>"
    by (simp add: Let_def prop_get_def Object_prototype_def IsLessThan_def nat_str_small)
  ultimately show ?thesis
    by simp
qed

text \<open>
  The payload \<^verbatim>\<open>{maxEmployees: 0}\<close>: the filter is present and nothing is built for it.
\<close>

theorem Company_getByFilter_zero_counterexample:
  "''maxEmployees'' \<in> set (Object_keys [(''maxEmployees'', JNum (Finite 0))])
   \<and> Company_build sample_engine [(''maxEmployees'', JNum (Finite 0))]
     = Inr \<lparr>queryString = Company_select, values = [], whereFilters = []\<rparr>"
  by (simp add: Company_build_def Object_keys_def prop_get_def Object_prototype_def IsLessThan_def js_lt_def)

section \<open>Positional parameters\<close>

subsection \<open>Decimal digits\<close>

lemma digit_cases:
  assumes "d < (10 :: nat)"
  obtains "d = 0" | "d = 1" | "d = 2" | "d = 3" | "d = 4"
    | "d = 5" | "d = 6" | "d = 7" | "d = 8" | "d = 9"
  using assms by atomize_elim arith

lemma digit_is_digit: "d < 10 \<Longrightarrow> is_digit (''0123456789'' ! d)"
  unfolding is_digit_def by (rule nth_mem) simp

lemma digit_value: "d < 10 \<Longrightarrow> of_char (''0123456789'' ! d) - 48 = d"
  by (erule digit_cases) simp_all

lemma is_digit_not_special: "is_digit c \<Longrightarrow> c \<noteq> CHR 0x22 \<and> c \<noteq> CHR ''$''"
  by (auto simp add: is_digit_def)

lemma nat_str_digits: "\<forall>c\<in>set (nat_str n). is_digit c"
proof (induction n rule: nat_str.induct)
  case (1 n)
  show ?case
  proof (cases "n < 10")
    case True
    then show ?thesis
      by (subst nat_str.simps) (simp add: digit_is_digit)
  next
    case False
    with 1 show ?thesis
      by (subst nat_str.simps) (simp add: digit_is_digit)
  qed
qed

lemma nat_str_not_Nil: "nat_str n \<noteq> []"
  by (subst nat_str.simps) simp

lemma digits_val_snoc: "digits_val (ds @ [c]) = 10 * digits_val ds + (of_char c - 48)"
  by (simp add: digits_val_def)

lemma digits_val_nat_str: "digits_val (nat_str n) = n"
proof (induction n rule: nat_str.induct)
  case (1 n)
  show ?case
  proof (cases "n < 10")
    case True
    then have "nat_str n = [''0123456789'' ! n]"
      by (subst nat_str.simps) simp
    with True show ?thesis
      by (simp add: digits_val_def digit_value)
  next
    case False
    then have "nat_str n = nat_str (n div 10) @ [''0123456789'' ! (n mod 10)]"
      by (subst nat_str.simps) simp
    with 1 False show ?thesis
      by (simp add: digits_val_snoc digit_value)
  qed
qed

subsection \<open>Scanning a clause\<close>

lemma takeWhile_nat_str:
  "no_digit_next ys \<Longrightarrow> takeWhile is_digit (nat_str n @ ys) = nat_str n"
  using nat_str_digits [of n]
  by (cases ys) (simp_all add: no_digit_next_def)

lemma placeholders_skip:
  "\<forall>c\<in>set xs. c \<noteq> CHR 0x22 \<and> c \<noteq> CHR ''$'' \<Longrightarrow>
   placeholders q (xs @ ys) = placeholders q ys"
  by (induction xs) simp_all

lemma placeholders_in_quotes:
  "\<forall>c\<in>set xs. c \<noteq> CHR 0x22 \<Longrightarrow> placeholders True (xs @ ys) = placeholders True ys"
  by (induction xs) simp_all

lemma placeholders_dollar:
  assumes "no_digit_next ys"
  shows "placeholders False (CHR ''$'' # nat_str n @ ys) = n # placeholders False ys"
proof -
  have tw: "takeWhile is_digit (nat_str n @ ys) = nat_str n"
    using assms by (rule takeWhile_nat_str)
  have "\<forall>c\<in>set (nat_str n). c \<noteq> CHR 0x22 \<and> c \<noteq> CHR ''$''"
    using nat_str_digits [of n] is_digit_not_special by blast
  then have "placeholders False (nat_str n @ ys) = placeholders False ys"
    by (rule placeholders_skip)
  with tw show ?thesis
    by (simp add: nat_str_not_Nil digits_val_nat_str)
qed

lemma placeholders_assignment:
  assumes "CHR 0x22 \<notin> set col" and "no_digit_next ys"
  shows "placeholders False (CHR 0x22 # col @ CHR 0x22 # CHR ''='' # CHR ''$'' # nat_str n @ ys)
         = n # placeholders False ys"
proof -
  have "\<forall>c\<in>set col. c \<noteq> CHR 0x22"
    using assms(1) by auto
  then have "placeholders True (col @ CHR 0x22 # CHR ''='' # CHR ''$'' # nat_str n @ ys)
      = placeholders True (CHR 0x22 # CHR ''='' # CHR ''$'' # nat_str n @ ys)"
    by (rule placeholders_in_quotes)
  also have "\<dots> = placeholders False (CHR ''$'' # nat_str n @ ys)"
    by simp
  also have "\<dots> = n # placeholders False ys"
    using assms(2) by (rule placeholders_dollar)
  finally show ?thesis
    by simp
qed

lemma placeholders_setCols:
  assumes "\<forall>k\<in>set ks. CHR 0x22 \<notin> set (column_of e jsToSql k)"
  shows "placeholders False (join '', '' (map (col_assignment e jsToSql) (List.enumerate i ks)))
         = [Suc i..<Suc i + length ks]"
  using assms
proof (induction ks arbitrary: i)
  case Nil
  then show ?case by simp
next
  case (Cons k ks)
  have q: "CHR 0x22 \<notin> set (column_of e jsToSql k)"
    using Cons.prems by simp
  show ?case
  proof (cases ks)
    case Nil
    have "no_digit_next []"
      by (simp add: no_digit_next_def)
    with q have "placeholders False
        (CHR 0x22 # column_of e jsToSql k @ CHR 0x22 # CHR ''='' # CHR ''$'' # nat_str (Suc i) @ [])
        = Suc i # placeholders False []"
      by (rule placeholders_assignment)
    with Nil show ?thesis
      by (simp add: col_assignment_eq)
  next
    case (Cons k' ks')
    let ?rest = "join '', '' (map (col_assignment e jsToSql) (List.enumerate (Suc i) ks))"
    have ih: "placeholders False ?rest = [Suc (Suc i)..<Suc (Suc i) + length ks]"
      using Cons.IH [of "Suc i"] Cons.prems by simp
    have nd: "no_digit_next ('', '' @ ?rest)"
      by (simp add: no_digit_next_def is_digit_def)
    have "placeholders False
        (CHR 0x22 # column_of e jsToSql k @ CHR 0x22 # CHR ''='' # CHR ''$'' # nat_str (Suc i)
           @ '', '' @ ?rest)
        = Suc i # placeholders False ('', '' @ ?rest)"
      using q nd by (rule placeholders_assignment)
    also have "placeholders False ('', '' @ ?rest) = placeholders False ?rest"
      by (rule placeholders_skip) simp
    finally have A: "placeholders False
        (CHR 0x22 # column_of e jsToSql k @ CHR 0x22 # CHR ''='' # CHR ''$'' # nat_str (Suc i)
           @ '', '' @ ?rest)
        = Suc i # [Suc (Suc i)..<Suc (Suc i) + length ks]"
      using ih by simp
    have B: "join '', '' (map (col_assignment e jsToSql) (List.enumerate i (k # ks)))
        = CHR 0x22 # column_of e jsToSql k @ CHR 0x22 # CHR ''='' # CHR ''$'' # nat_str (Suc i)
           @ '', '' @ ?rest"
      using Cons by (simp add: col_assignment_eq)
    have "Suc i < Suc i + length (k # ks)"
      by simp
    then have "[Suc i..<Suc i + length (k # ks)] = Suc i # [Suc (Suc i)..<Suc i + length (k # ks)]"
      by (rule upt_conv_Cons)
    moreover have "Suc i + length (k # ks) = Suc (Suc i) + length ks"
      by simp
    ultimately have C: "[Suc i..<Suc i + length (k # ks)] = Suc i # [Suc (Suc i)..<Suc (Suc i) + length ks]"
      by (simp only:)
    show ?thesis
      unfolding B C by (rule A)
  qed
qed

subsection \<open>The clauses of the three builders\<close>

lemma Company_build_InrD:
  assumes "Company_build e filters = Inr s"
  shows "(\<forall>k\<in>set (Object_keys filters). k \<in> {''name'', ''minEmployees'', ''maxEmployees''})
         \<and> \<not> js_lt e (prop_get filters ''maxEmployees'') (prop_get filters ''minEmployees'')"
proof (cases "Company_check_keys (Object_keys filters)")
  case (Inl err)
  with assms show ?thesis
    by (simp add: Company_build_def)
next
  case (Inr u)
  then have "\<forall>k\<in>set (Object_keys filters). k \<in> {''name'', ''minEmployees'', ''maxEmployees''}"
    using Company_check_keys_Inr by blast
  moreover from assms Inr
  have "\<not> js_lt e (prop_get filters ''maxEmployees'') (prop_get filters ''minEmployees'')"
    by (auto simp add: Company_build_def Let_def split: if_splits)
  ultimately show ?thesis
    by simp
qed

lemma Job_build_InrD:
  assumes "Job_build e filters = Inr s"
  shows "\<forall>k\<in>set (Object_keys filters). k \<in> {''title'', ''minSalary'', ''hasEquity''}"
proof (cases "Job_check_keys (Object_keys filters)")
  case (Inl err)
  with assms show ?thesis
    by (simp add: Job_build_def)
next
  case (Inr u)
  then show ?thesis
    using Job_check_keys_Inr by blast
qed

lemma placeholders_Company_select:
  "placeholders False (Company_select @ ys) = placeholders False ys"
  by (simp add: Company_select_def)

lemma placeholders_Job_select:
  "placeholders False (Job_select @ ys) = placeholders False ys"
  by (simp add: Job_select_def)

lemma placeholders_select_only:
  "placeholders False Company_select = []" "placeholders False Job_select = []"
  by (simp_all add: Company_select_def Job_select_def)

lemma Company_placeholders:
  assumes "Company_build e filters = Inr s"
  shows "placeholders False (join '' AND '' (whereFilters s)) = [1..<Suc (length (locals.values s))]
         \<and> placeholders False (queryString s) = [1..<Suc (length (locals.values s))]"
proof -
  note d = Company_build_InrD [OF assms]
  from d have keys: "\<forall>k\<in>set (Object_keys filters). k \<in> {''name'', ''minEmployees'', ''maxEmployees''}"
    and range: "\<not> js_lt e (prop_get filters ''maxEmployees'') (prop_get filters ''minEmployees'')"
    by simp_all
  from assms show ?thesis
    unfolding Company_build_ok [OF keys range]
    by (cases "ToBoolean (prop_get filters ''name'')";
        cases "ToBoolean (prop_get filters ''maxEmployees'')";
        cases "ToBoolean (prop_get filters ''minEmployees'')")
       (auto simp add: Let_def nat_str_small placeholders_Company_select placeholders_select_only is_digit_def digits_val_def)
qed

lemma Job_placeholders:
  assumes "Job_build e filters = Inr s"
  shows "placeholders False (join '' AND '' (whereFilters s)) = [1..<Suc (length (locals.values s))]
         \<and> placeholders False (queryString s) = [1..<Suc (length (locals.values s))]"
proof -
  note keys = Job_build_InrD [OF assms]
  from assms show ?thesis
    unfolding Job_build_ok [OF keys]
    by (cases "ToBoolean (prop_get filters ''title'')";
        cases "ToBoolean (prop_get filters ''minSalary'')";
        cases "prop_get filters ''hasEquity'' = JBool True")
       (auto simp add: Let_def nat_str_small placeholders_Job_select placeholders_select_only is_digit_def digits_val_def)
qed

text \<open>
  Claim C2, as the code has it. Whenever a builder succeeds, the positional parameters
  that the database reads in the returned clause are \<^verbatim>\<open>$1\<close>, ..., \<^verbatim>\<open>$n\<close> in this order,
  \<open>n\<close> being the length of the list of values, which is the list bound to them by
  position: for \<^verbatim>\<open>Company.getByFilter\<close> and \<^verbatim>\<open>Job.getByFilter\<close> on every payload (in the
  WHERE fragment and in the whole query sent with the values; the hasEquity fragment
  has no parameter and binds nothing), and for \<^verbatim>\<open>sqlForPartialUpdate\<close> on every payload
  whose resolved column names hold no double quote.

  The column names are spliced into the clause as they come. With the key
  \<^verbatim>\<open>a"=$7, "b\<close> the function succeeds with the clause \<^verbatim>\<open>"a"=$7, "b"=$1\<close> and one value:
  the parameters read are 7 and 1, not 1 alone.
\<close>

theorem builders_placeholders:
  "(sqlForPartialUpdate e dataToUpdate jsToSql = Inr r \<and>
    (\<forall>k\<in>set (Object_keys dataToUpdate). CHR 0x22 \<notin> set (column_of e jsToSql k)) \<longrightarrow>
      placeholders False (setCols r) = [1..<Suc (length (partial_update.values r))]
      \<and> partial_update.values r = Object_values dataToUpdate)
   \<and> (Company_build e filters = Inr s \<longrightarrow>
      placeholders False (join '' AND '' (whereFilters s)) = [1..<Suc (length (locals.values s))]
      \<and> placeholders False (queryString s) = [1..<Suc (length (locals.values s))]
      \<and> Company_getByFilter e db_query filters = db_query (queryString s) (locals.values s))
   \<and> (Job_build e filters = Inr s \<longrightarrow>
      placeholders False (join '' AND '' (whereFilters s)) = [1..<Suc (length (locals.values s))]
      \<and> placeholders False (queryString s) = [1..<Suc (length (locals.values s))]
      \<and> Job_getByFilter e db_query filters = db_query (queryString s) (locals.values s))"
proof (intro conjI impI)
  assume h: "sqlForPartialUpdate e dataToUpdate jsToSql = Inr r \<and>
    (\<forall>k\<in>set (Object_keys dataToUpdate). CHR 0x22 \<notin> set (column_of e jsToSql k))"
  let ?ks = "Object_keys dataToUpdate"
  from h have ne: "?ks \<noteq> []"
    by (auto simp add: sqlForPartialUpdate_def Let_def)
  from h sqlForPartialUpdate_Inr [OF ne, of e jsToSql]
  have r: "r = \<lparr>setCols = join '', '' (map (col_assignment e jsToSql) (List.enumerate 0 ?ks)),
               partial_update.values = map snd dataToUpdate\<rparr>"
    by simp
  from h have "placeholders False (join '', '' (map (col_assignment e jsToSql) (List.enumerate 0 ?ks)))
      = [Suc 0..<Suc 0 + length ?ks]"
    using placeholders_setCols by blast
  with r show "placeholders False (setCols r) = [1..<Suc (length (partial_update.values r))]"
    by (simp add: Object_keys_def)
  from r show "partial_update.values r = Object_values dataToUpdate"
    by (simp add: Object_values_def)
next
  assume b: "Company_build e filters = Inr s"
  from Company_placeholders [OF b]
  show "placeholders False (join '' AND '' (whereFilters s)) = [1..<Suc (length (locals.values s))]"
    and "placeholders False (queryString s) = [1..<Suc (length (locals.values s))]"
    by simp_all
  from b show "Company_getByFilter e db_query filters = db_query (queryString s) (locals.values s)"
    by (simp add: Company_getByFilter_def)
next
  assume b: "Job_build e filters = Inr s"
  from Job_placeholders [OF b]
  show "placeholders False (join '' AND '' (whereFilters s)) = [1..<Suc (length (locals.values s))]"
    and "placeholders False (queryString s) = [1..<Suc (length (locals.values s))]"
    by simp_all
  from b show "Job_getByFilter e db_query filters = db_query (queryString s) (locals.values s)"
    by (simp add: Job_getByFilter_def)
qed

theorem builders_placeholders_witness:
  \<open>sqlForPartialUpdate sample_engine
       [(''firstname'', JStr ''Max''), (''lastname'', JStr ''Smith'')]
       [(''firstname'', JStr ''first_name''), (''lastname'', JStr ''last_name'')]
     = Inr \<lparr>setCols = ''"first_name"=$1, "last_name"=$2'',
            partial_update.values = [JStr ''Max'', JStr ''Smith'']\<rparr>
   \<and> placeholders False ''"first_name"=$1, "last_name"=$2'' = [1, 2]
   \<and> Company_build sample_engine
       [(''minEmployees'', JNum (Finite 10)), (''name'', JStr ''net''),
        (''maxEmployees'', JNum (Finite 50))]
     = Inr \<lparr>queryString = Company_select
                @ ''name ILIKE $1 AND num_employees <= $2 AND num_employees >= $3'',
            values = [JStr ''%net%'', JNum (Finite 50), JNum (Finite 10)],
            whereFilters = [''name ILIKE $1'', ''num_employees <= $2'',
                            ''num_employees >= $3'']\<rparr>
   \<and> placeholders False
        (Company_select @ ''name ILIKE $1 AND num_employees <= $2 AND num_employees >= $3'')
       = [1, 2, 3]
   \<and> Job_build sample_engine [(''hasEquity'', JBool True), (''minSalary'', JNum (Finite 20))]
     = Inr \<lparr>queryString = Job_select @ ''salary >= $1 AND equity IS NOT NULL AND equity > 0'',
            values = [JNum (Finite 20)],
            whereFilters = [''salary >= $1'', ''equity IS NOT NULL AND equity > 0'']\<rparr>
   \<and> placeholders False (Job_select @ ''salary >= $1 AND equity IS NOT NULL AND equity > 0'')
       = [1]\<close>
proof -
  let ?d = "[(''firstname'', JStr ''Max''), (''lastname'', JStr ''Smith'')]"
  let ?m = "[(''firstname'', JStr ''first_name''), (''lastname'', JStr ''last_name'')]"
  let ?r = \<open>\<lparr>setCols = ''"first_name"=$1, "last_name"=$2'',
             partial_update.values = [JStr ''Max'', JStr ''Smith'']\<rparr>\<close>
  let ?f = "[(''minEmployees'', JNum (Finite 10)), (''name'', JStr ''net''),
             (''maxEmployees'', JNum (Finite 50))]"
  let ?s = "\<lparr>queryString = Company_select
                @ ''name ILIKE $1 AND num_employees <= $2 AND num_employees >= $3'',
             values = [JStr ''%net%'', JNum (Finite 50), JNum (Finite 10)],
             whereFilters = [''name ILIKE $1'', ''num_employees <= $2'',
                             ''num_employees >= $3'']\<rparr>"
  let ?g = "[(''hasEquity'', JBool True), (''minSalary'', JNum (Finite 20))]"
  let ?t = "\<lparr>queryString = Job_select @ ''salary >= $1 AND equity IS NOT NULL AND equity > 0'',
             values = [JNum (Finite 20)],
             whereFilters = [''salary >= $1'', ''equity IS NOT NULL AND equity > 0'']\<rparr>"
  have u: "sqlForPartialUpdate sample_engine ?d ?m = Inr ?r \<and>
      (\<forall>k\<in>set (Object_keys ?d). CHR 0x22 \<notin> set (column_of sample_engine ?m k))"
    by (simp add: sqlForPartialUpdate_def Object_keys_def Object_values_def col_assignment_def
        column_of_def js_or_def prop_get_def Object_prototype_def IsLessThan_def nat_str.simps)
  have c: "Company_build sample_engine ?f = Inr ?s"
    by (simp add: Company_build_def Object_keys_def prop_get_def Object_prototype_def IsLessThan_def js_lt_def push_filter_def
        nat_str.simps)
  have j: "Job_build sample_engine ?g = Inr ?t"
    by (simp add: Job_build_def Object_keys_def prop_get_def Object_prototype_def IsLessThan_def js_ge_def push_filter_def
        nat_str.simps)
  from builders_placeholders [where e = sample_engine and dataToUpdate = ?d and jsToSql = ?m and r = ?r] u
  have "placeholders False (setCols ?r) = [1..<Suc (length (partial_update.values ?r))]"
    by blast
  then have one: \<open>placeholders False ''"first_name"=$1, "last_name"=$2'' = [1, 2]\<close>
    by (simp add: upt_rec)
  from builders_placeholders [where e = sample_engine and filters = ?f and s = ?s] c
  have "placeholders False (queryString ?s) = [1..<Suc (length (locals.values ?s))]"
    by blast
  then have two: "placeholders False
        (Company_select @ ''name ILIKE $1 AND num_employees <= $2 AND num_employees >= $3'')
       = [1, 2, 3]"
    by (simp add: upt_rec)
  from builders_placeholders [where e = sample_engine and filters = ?g and s = ?t] j
  have "placeholders False (queryString ?t) = [1..<Suc (length (locals.values ?t))]"
    by blast
  then have three: "placeholders False
        (Job_select @ ''salary >= $1 AND equity IS NOT NULL AND equity > 0'') = [1]"
    by (simp add: upt_rec)
  from u have "sqlForPartialUpdate sample_engine ?d ?m = Inr ?r"
    by (rule conjunct1)
  with c j one two three show ?thesis
    by (simp only: simp_thms)
qed

text \<open>
  The payload with the one key \<^verbatim>\<open>a"=$7, "b\<close> and an empty column map.
\<close>

theorem sqlForPartialUpdate_quote_counterexample:
  \<open>sqlForPartialUpdate sample_engine [(''a"=$7, "b'', JNum (Finite 1))] []
     = Inr \<lparr>setCols = ''"a"=$7, "b"=$1'', partial_update.values = [JNum (Finite 1)]\<rparr>
   \<and> placeholders False ''"a"=$7, "b"=$1'' = [7, 1]
   \<and> [7, 1] \<noteq> [1..<Suc (length [JNum (Finite 1)])]\<close>
  by (simp add: sqlForPartialUpdate_def Object_keys_def Object_values_def col_assignment_def
      js_or_def prop_get_def Object_prototype_def IsLessThan_def nat_str.simps is_digit_def digits_val_def)

end
